theory Spec2Isabelle
  imports Main
begin

section \<open>Values exchanged with the caller and with the upstream service\<close>

text \<open>
  The server of \<^verbatim>\<open>src/index.ts\<close> receives its tool arguments as an untyped
  JavaScript value and gets JSON back from the upstream service. A JavaScript string is
  modelled as a \<^typ>\<open>string\<close>: the server compares strings, joins them and looks in them
  for the slash and the digits 0 to 9, nothing else. An object is the list of its own
  properties in enumeration order, each key once. No operation of the server looks inside
  a number, so the numeric payload is kept as an integer. The value \<^verbatim>\<open>undefined\<close>
  is \<^term>\<open>None\<close> of an option type.
\<close>

datatype json =
    JNull
  | JBool bool
  | JNum int
  | JStr string
  | JArr "json list"
  | JObj "(string \<times> json) list"

text \<open>\<^verbatim>\<open>typeof v === 'object' && v !== null\<close>: objects and arrays.\<close>

fun is_object :: "json option \<Rightarrow> bool" where
  "is_object (Some (JObj kvs)) = True"
| "is_object (Some (JArr vs)) = True"
| "is_object v = False"

text \<open>\<^verbatim>\<open>typeof v === 'string'\<close>.\<close>

fun is_string :: "json option \<Rightarrow> bool" where
  "is_string (Some (JStr s)) = True"
| "is_string v = False"

text \<open>
  The property read \<^verbatim>\<open>args.k\<close> for the keys the server reads: the property of an
  object, and \<^verbatim>\<open>undefined\<close> on an array. The server reads a property only behind
  the object test, so the other cases (where JavaScript reads \<^verbatim>\<open>undefined\<close> from a
  primitive and throws on \<^verbatim>\<open>null\<close> and \<^verbatim>\<open>undefined\<close>) are never
  reached; they are \<^term>\<open>None\<close> here.
\<close>

fun get_prop :: "json option \<Rightarrow> string \<Rightarrow> json option" where
  "get_prop (Some (JObj kvs)) k = map_of kvs k"
| "get_prop v k = None"

text \<open>The string behind a value once \<^const>\<open>is_string\<close> has passed.\<close>

fun str_of :: "json option \<Rightarrow> string" where
  "str_of (Some (JStr s)) = s"
| "str_of v = []"

text \<open>
  JavaScript truthiness. The server tests it on values that are \<^verbatim>\<open>undefined\<close> or a
  string, where the empty string and \<^verbatim>\<open>undefined\<close> are the false ones.
\<close>

fun truthy :: "json option \<Rightarrow> bool" where
  "truthy (Some (JStr s)) = (s \<noteq> [])"
| "truthy None = False"
| "truthy (Some JNull) = False"
| "truthy (Some (JBool b)) = b"
| "truthy (Some (JNum n)) = (n \<noteq> 0)"
| "truthy (Some (JArr vs)) = True"
| "truthy (Some (JObj kvs)) = True"

section \<open>String helpers\<close>

text \<open>The regular expression \<^verbatim>\<open>/^\d+$/\<close>: one or more of the digits 0 to 9.\<close>

definition is_digit :: "char \<Rightarrow> bool" where
  "is_digit c = (c \<in> set ''0123456789'')"

definition is_digits :: "string \<Rightarrow> bool" where
  "is_digits s = (s \<noteq> [] \<and> list_all is_digit s)"

text \<open>
  \<^verbatim>\<open>s.split(sep)\<close> for a one-character separator: the pieces between the
  separators, empty pieces kept, so the result is never empty.
\<close>

fun split_str :: "char \<Rightarrow> string \<Rightarrow> string list" where
  "split_str sep [] = [[]]"
| "split_str sep (c # cs) =
     (if c = sep then [] # split_str sep cs
      else (case split_str sep cs of
              [] \<Rightarrow> [[c]]
            | w # ws \<Rightarrow> (c # w) # ws))"

text \<open>\<^verbatim>\<open>xs.indexOf(x)\<close>: the first index of \<open>x\<close>, or -1.\<close>

fun indexOf :: "'a list \<Rightarrow> 'a \<Rightarrow> int" where
  "indexOf [] x = -1"
| "indexOf (y # ys) x =
     (if y = x then 0
      else (let i = indexOf ys x in if i = -1 then -1 else i + 1))"

text \<open>A non-negative integer in a template string: its decimal digits.\<close>

definition digit_char :: "nat \<Rightarrow> char" where
  "digit_char d = ''0123456789'' ! d"

fun show_nat :: "nat \<Rightarrow> string" where
  "show_nat n = (if n < 10 then [digit_char n] else show_nat (n div 10) @ [digit_char (n mod 10)])"

declare show_nat.simps [simp del]

section \<open>The identifier extractor\<close>

text \<open>
  \<^verbatim>\<open>getIssueId\<close> calls the platform's \<^verbatim>\<open>new URL(input)\<close>, which is not code of
  the repository. It is a parameter here: \<open>url_pathname input\<close> is \<^term>\<open>None\<close> when
  the constructor throws and \<open>Some p\<close> when it returns a URL whose \<^verbatim>\<open>pathname\<close> is
  \<open>p\<close>. Nothing else in the \<^verbatim>\<open>try\<close> block can throw, so the \<^verbatim>\<open>catch\<close> block
  runs exactly when the constructor throws.
\<close>

type_synonym url_parser = "string \<Rightarrow> string option"

definition getIssueId :: "url_parser \<Rightarrow> string \<Rightarrow> string option" where
  "getIssueId url_pathname input =
     (case url_pathname input of
        Some pathname \<Rightarrow>
          (let pathParts = split_str CHR ''/'' pathname;
               issuesIndex = indexOf pathParts ''issues''
           in if issuesIndex \<noteq> -1 \<and> int (length pathParts) > issuesIndex + 1
              then (let potentialId = pathParts ! nat (issuesIndex + 1)
                    in if is_digits potentialId then Some potentialId else None)
              else None)
      | None \<Rightarrow> (if is_digits input then Some input else None))"

section \<open>Argument type guards\<close>

definition isValidGetIssueArgs :: "json option \<Rightarrow> bool" where
  "isValidGetIssueArgs args =
     (is_object args \<and> is_string (get_prop args ''issue_id_or_url''))"

definition isValidListIssuesArgs :: "json option \<Rightarrow> bool" where
  "isValidListIssuesArgs args =
     (is_object args \<and> is_string (get_prop args ''project_slug'') \<and>
      (get_prop args ''query'' = None \<or> is_string (get_prop args ''query'')) \<and>
      (get_prop args ''status'' = None \<or> is_string (get_prop args ''status'')))"

definition isValidGetEventArgs :: "json option \<Rightarrow> bool" where
  "isValidGetEventArgs args =
     (is_object args \<and> is_string (get_prop args ''project_slug'') \<and>
      is_string (get_prop args ''event_id''))"

definition isValidUpdateIssueArgs :: "json option \<Rightarrow> bool" where
  "isValidUpdateIssueArgs args =
     (is_object args \<and> is_string (get_prop args ''issue_id'') \<and>
      is_string (get_prop args ''status'') \<and>
      str_of (get_prop args ''status'') \<in> set [''resolved'', ''ignored'', ''unresolved''])"

definition isValidCreateCommentArgs :: "json option \<Rightarrow> bool" where
  "isValidCreateCommentArgs args =
     (is_object args \<and> is_string (get_prop args ''issue_id'') \<and>
      is_string (get_prop args ''comment_text''))"

section \<open>The tool catalog\<close>

datatype prop_schema =
  PropSchema (ptype: string) (pdescription: string) (penum: "string list option")

record input_schema =
  schema_type :: string
  properties :: "(string \<times> prop_schema) list"
  required :: "string list"

record tool_def =
  name :: string
  description :: string
  inputSchema :: input_schema

text \<open>The answer of the \<^verbatim>\<open>ListToolsRequestSchema\<close> handler.\<close>

definition listTools :: "tool_def list" where
  \<open>listTools =
     [\<lparr>name = ''get_sentry_issue'',
       description = ''Retrieve details for a specific Sentry issue by ID or URL, including the stacktrace from the latest event.'',
       inputSchema = \<lparr>schema_type = ''object'',
         properties =
           [(''issue_id_or_url'', PropSchema ''string''
               ''Sentry issue ID or full issue URL. Issue ID is a number e.g: 123456'' None)],
         required = [''issue_id_or_url'']\<rparr>\<rparr>,
      \<lparr>name = ''list_sentry_projects'',
       description = ''List all projects within the configured Sentry organization.'',
       inputSchema = \<lparr>schema_type = ''object'', properties = [], required = []\<rparr>\<rparr>,
      \<lparr>name = ''list_sentry_issues'',
       description = ''List issues for a specific project, optionally filtering by query or status.'',
       inputSchema = \<lparr>schema_type = ''object'',
         properties =
           [(''project_slug'', PropSchema ''string''
               ''The slug of the project (e.g., "my-web-app").'' None),
            (''query'', PropSchema ''string''
               ''Optional Sentry search query (e.g., "is:unresolved environment:production").'' None),
            (''status'', PropSchema ''string'' ''Optional issue status filter.''
               (Some [''resolved'', ''unresolved'', ''ignored'']))],
         required = [''project_slug'']\<rparr>\<rparr>,
      \<lparr>name = ''get_sentry_event_details'',
       description = ''Retrieve details for a specific event ID within a project.'',
       inputSchema = \<lparr>schema_type = ''object'',
         properties =
           [(''project_slug'', PropSchema ''string'' ''The slug of the project.'' None),
            (''event_id'', PropSchema ''string'' ''The ID of the event.'' None)],
         required = [''project_slug'', ''event_id'']\<rparr>\<rparr>]\<close>

section \<open>Failures, results and the environment of a call\<close>

text \<open>
  What a \<^verbatim>\<open>throw\<close> or a rejected promise can carry into the \<^verbatim>\<open>catch\<close> block
  of the call handler: an \<^verbatim>\<open>McpError\<close> with the code and message it was built
  from; an axios error with its message and, when a response arrived, the status and
  body of that response; any other \<^verbatim>\<open>Error\<close> with its message; and a thrown
  value that is no \<^verbatim>\<open>Error\<close> at all.
\<close>

datatype error_code = InvalidParams | MethodNotFound

datatype failure =
    McpError error_code string
  | AxiosError string "(nat \<times> json) option"
  | Error string
  | Thrown

datatype content_item = TextContent string

text \<open>
  The handler's return value. The success paths return an object without the
  \<^verbatim>\<open>isError\<close> property; the protocol reads the absent property as false, which is
  \<open>is_error\<close>.
\<close>

record tool_result =
  content :: "content_item list"
  isError :: "bool option"

definition is_error :: "tool_result \<Rightarrow> bool" where
  "is_error r = (isError r = Some True)"

text \<open>
  What the handler uses and the repository does not define: the organisation slug read
  at startup, the URL constructor, \<^verbatim>\<open>JSON.stringify(v)\<close> and
  \<^verbatim>\<open>JSON.stringify(v, null, 2)\<close>, and the upstream service behind
  \<^verbatim>\<open>axiosInstance.get(path, {params})\<close>, which answers with the response body or
  fails. Writes to the console are not modelled.
\<close>

record env =
  org_slug :: string
  parse_url :: url_parser
  json_stringify :: "json \<Rightarrow> string"
  json_stringify2 :: "json \<Rightarrow> string"
  axios_get :: "string \<Rightarrow> (string \<times> string) list \<Rightarrow> failure + json"

text \<open>A request sent upstream: the path and the query parameters.\<close>

type_synonym request = "string \<times> (string \<times> string) list"

text \<open>The requests a call sent, in order, and how the call ended.\<close>

type_synonym outcome = "request list \<times> (failure + tool_result)"

section \<open>The call handler\<close>

text \<open>
  The object spread \<^verbatim>\<open>{...v}\<close>: the own enumerable properties of \<open>v\<close>. An
  object gives its properties, an array and a string their elements under the indices,
  every other value nothing.
\<close>

fun spread :: "json \<Rightarrow> (string \<times> json) list" where
  "spread (JObj kvs) = kvs"
| "spread (JArr vs) = zip (map show_nat [0..<length vs]) vs"
| "spread (JStr s) = zip (map show_nat [0..<length s]) (map (\<lambda>c. JStr [c]) s)"
| "spread v = []"

text \<open>
  Writing the property \<open>k\<close> of an object: an existing property keeps its place, a new
  one goes to the end.
\<close>

fun set_prop :: "string \<Rightarrow> json \<Rightarrow> (string \<times> json) list \<Rightarrow> (string \<times> json) list" where
  "set_prop k v [] = [(k, v)]"
| "set_prop k v (p # ps) = (if fst p = k then (k, v) # ps else p # set_prop k v ps)"

text \<open>\<^verbatim>\<open>{ content: [{ type: "text", text: t }] }\<close>\<close>

definition text_result :: "string \<Rightarrow> tool_result" where
  "text_result t = \<lparr>content = [TextContent t], isError = None\<rparr>"

text \<open>The branch of \<^verbatim>\<open>get_sentry_issue\<close>, up to its return or throw.\<close>

definition get_sentry_issue :: "env \<Rightarrow> json option \<Rightarrow> outcome" where
  "get_sentry_issue env args =
     (if \<not> isValidGetIssueArgs args
      then ([], Inl (McpError InvalidParams ''Invalid args for get_sentry_issue.''))
      else
        (let issue_id_or_url = str_of (get_prop args ''issue_id_or_url'');
             issueId = getIssueId (parse_url env) issue_id_or_url
         in if issueId = None \<or> issueId = Some []
            then ([], Inl (McpError InvalidParams
                    (''Could not extract issue ID from: '' @ issue_id_or_url)))
            else
              (let issueRequest = (''issues/'' @ the issueId @ ''/'', [])
               in case axios_get env (fst issueRequest) (snd issueRequest) of
                    Inl error \<Rightarrow> ([issueRequest], Inl error)
                  | Inr issueData \<Rightarrow>
                      (let combinedData = set_prop ''latest_event'' JNull (spread issueData);
                           eventRequest =
                             (''organizations/'' @ org_slug env @ ''/issues/'' @ the issueId @
                                ''/events/latest/'', []);
                           combinedData' =
                             (case axios_get env (fst eventRequest) (snd eventRequest) of
                                Inl eventError \<Rightarrow> combinedData
                              | Inr eventData \<Rightarrow> set_prop ''latest_event'' eventData combinedData)
                       in ([issueRequest, eventRequest],
                           Inr (text_result (json_stringify2 env (JObj combinedData'))))))))"

text \<open>The branch of \<^verbatim>\<open>list_sentry_projects\<close>.\<close>

definition list_sentry_projects :: "env \<Rightarrow> outcome" where
  "list_sentry_projects env =
     (let request = (''organizations/'' @ org_slug env @ ''/projects/'', [])
      in case axios_get env (fst request) (snd request) of
           Inl error \<Rightarrow> ([request], Inl error)
         | Inr data \<Rightarrow> ([request], Inr (text_result (json_stringify2 env data))))"

text \<open>
  The \<^verbatim>\<open>params\<close> object that the branch of \<^verbatim>\<open>list_sentry_issues\<close> builds from
  arguments that passed the guard, as the list of its properties.
\<close>

definition list_issues_params :: "json option \<Rightarrow> (string \<times> string) list" where
  "list_issues_params args =
     (let params = [];
          params = (if truthy (get_prop args ''query'')
                    then [(''query'', str_of (get_prop args ''query''))] else params);
          params = (if truthy (get_prop args ''status'')
                    then [(''query'',
                           (case map_of params ''query'' of
                              None \<Rightarrow> []
                            | Some q \<Rightarrow> (if q \<noteq> [] then q @ '' '' else [])) @
                           ''is:'' @ str_of (get_prop args ''status''))]
                    else params)
      in params)"

definition list_sentry_issues :: "env \<Rightarrow> json option \<Rightarrow> outcome" where
  "list_sentry_issues env args =
     (if \<not> isValidListIssuesArgs args
      then ([], Inl (McpError InvalidParams ''Invalid args for list_sentry_issues.''))
      else
        (let request =
               (''projects/'' @ org_slug env @ ''/'' @ str_of (get_prop args ''project_slug'') @
                  ''/issues/'', list_issues_params args)
         in case axios_get env (fst request) (snd request) of
              Inl error \<Rightarrow> ([request], Inl error)
            | Inr data \<Rightarrow> ([request], Inr (text_result (json_stringify2 env data)))))"

text \<open>The branch of \<^verbatim>\<open>get_sentry_event_details\<close>.\<close>

definition get_sentry_event_details :: "env \<Rightarrow> json option \<Rightarrow> outcome" where
  "get_sentry_event_details env args =
     (if \<not> isValidGetEventArgs args
      then ([], Inl (McpError InvalidParams ''Invalid args for get_sentry_event_details.''))
      else
        (let request =
               (''projects/'' @ org_slug env @ ''/'' @ str_of (get_prop args ''project_slug'') @
                  ''/events/'' @ str_of (get_prop args ''event_id'') @ ''/'', [])
         in case axios_get env (fst request) (snd request) of
              Inl error \<Rightarrow> ([request], Inl error)
            | Inr data \<Rightarrow> ([request], Inr (text_result (json_stringify2 env data)))))"

text \<open>The \<^verbatim>\<open>try\<close> block: the chain of tests on the tool name, in its order.\<close>

definition try_block :: "env \<Rightarrow> string \<Rightarrow> json option \<Rightarrow> outcome" where
  "try_block env toolName args =
     (if toolName = ''get_sentry_issue'' then get_sentry_issue env args
      else if toolName = ''list_sentry_projects'' then list_sentry_projects env
      else if toolName = ''list_sentry_issues'' then list_sentry_issues env args
      else if toolName = ''get_sentry_event_details'' then get_sentry_event_details env args
      else ([], Inl (McpError MethodNotFound (''Unknown tool: '' @ toolName))))"

text \<open>
  The \<^verbatim>\<open>catch\<close> block, the error classifier: the message it builds, and whether
  it throws again or returns. The flag \<^verbatim>\<open>isClientError\<close> is set and never read.
\<close>

definition catch_block :: "env \<Rightarrow> string \<Rightarrow> failure \<Rightarrow> failure + tool_result" where
  "catch_block env toolName error =
     (case error of
        AxiosError message response \<Rightarrow>
          (let errorMessage = ''Sentry API error for '' @ toolName @ '': '' @ message;
               errorMessage =
                 (case response of
                    None \<Rightarrow> errorMessage
                  | Some (status, data) \<Rightarrow>
                      (let errorMessage =
                             errorMessage @ '' Status: '' @ show_nat status @ ''. Response: '' @
                               json_stringify env data
                       in if status \<ge> 400 \<and> status < 500
                          then (if status = 401 \<or> status = 403
                                then ''Sentry API permission denied for '' @ toolName @
                                       ''. Check auth token validity and permissions.''
                                else if status = 404
                                then ''Sentry resource not found for '' @ toolName @
                                       ''. Check IDs/slugs.''
                                else errorMessage)
                          else errorMessage))
           in Inr \<lparr>content = [TextContent errorMessage], isError = Some True\<rparr>)
      | McpError code message \<Rightarrow> Inl (McpError code message)
      | Error message \<Rightarrow> Inr \<lparr>content = [TextContent message], isError = Some True\<rparr>
      | Thrown \<Rightarrow>
          Inr \<lparr>content = [TextContent (''Failed to execute tool '' @ toolName @ ''.'')],
               isError = Some True\<rparr>)"

text \<open>The handler of \<^verbatim>\<open>CallToolRequestSchema\<close>.\<close>

definition callTool :: "env \<Rightarrow> string \<Rightarrow> json option \<Rightarrow> outcome" where
  "callTool env toolName args =
     (case try_block env toolName args of
        (sent, Inl error) \<Rightarrow> (sent, catch_block env toolName error)
      | (sent, Inr result) \<Rightarrow> (sent, Inr result))"

section \<open>The platform's URL constructor\<close>

text \<open>
  Without a base, the URL constructor accepts an input only when it finds a scheme, which
  ends at a colon. This is the one property of the constructor that the extractor's
  behaviour on digit strings rests on.
\<close>

definition needs_scheme :: "url_parser \<Rightarrow> bool" where
  "needs_scheme url_pathname = (\<forall>s. url_pathname s \<noteq> None \<longrightarrow> CHR '':'' \<in> set s)"

section \<open>An example environment\<close>

text \<open>
  The pathnames that the URL constructor gives for a few issue URLs; every other input of
  the examples is one that the constructor rejects.
\<close>

definition example_urls :: url_parser where
  "example_urls =
     [''https://sentry.example.com/organizations/acme/issues/42/'' \<mapsto>
        ''/organizations/acme/issues/42/'',
      ''https://sentry.example.com/organizations/acme/projects/'' \<mapsto>
        ''/organizations/acme/projects/'',
      ''https://sentry.example.com/organizations/acme/issues'' \<mapsto>
        ''/organizations/acme/issues'',
      ''https://sentry.example.com/organizations/acme/issues/latest/'' \<mapsto>
        ''/organizations/acme/issues/latest/'',
      ''https://sentry.example.com/organizations/issues/issues/123/'' \<mapsto>
        ''/organizations/issues/issues/123/'',
      ''https://sentry.example.com/issues/abc/issues/123'' \<mapsto>
        ''/issues/abc/issues/123'']"

text \<open>
  An upstream service that knows issue 42, has no event for it, and lists the issues of
  the project \<^verbatim>\<open>web\<close>.
\<close>

definition example_upstream :: "string \<Rightarrow> (string \<times> string) list \<Rightarrow> failure + json" where
  "example_upstream path params =
     (if path = ''issues/42/''
      then Inr (JObj [(''id'', JStr ''42''), (''title'', JStr ''TypeError in checkout'')])
      else if path = ''projects/acme/web/issues/''
      then Inr (JArr [])
      else Inl (AxiosError ''Request failed with status code 404''
                  (Some (404, JObj [(''detail'', JStr ''The requested resource does not exist'')]))))"

text \<open>
  A stand-in for the two uses of \<^verbatim>\<open>JSON.stringify\<close>: the examples below never look
  inside the text it returns.
\<close>

definition example_stringify :: "json \<Rightarrow> string" where
  "example_stringify v = ''[json]''"

definition example_env :: env where
  "example_env =
     \<lparr>org_slug = ''acme'', parse_url = example_urls, json_stringify = example_stringify,
      json_stringify2 = example_stringify, axios_get = example_upstream\<rparr>"

section \<open>Properties of the identifier extractor\<close>

lemma indexOf_absent: "x \<notin> set xs \<Longrightarrow> indexOf xs x = -1"
  by (induction xs) auto

lemma indexOf_first: "x \<notin> set pre \<Longrightarrow> indexOf (pre @ x # post) x = int (length pre)"
  by (induction pre) (auto simp: Let_def)

lemma nth_after_prefix: "(pre @ x # y # post) ! nat (int (length pre) + 1) = y"
proof -
  have "nat (int (length pre) + 1) = Suc (length pre)" by simp
  then show ?thesis by (simp add: nth_append)
qed

lemma is_digit_not_colon: "is_digit c \<Longrightarrow> c \<noteq> CHR '':''"
  by (auto simp: is_digit_def)

lemma is_digits_no_colon: "is_digits s \<Longrightarrow> CHR '':'' \<notin> set s"
  using is_digit_not_colon by (auto simp: is_digits_def list_all_iff)

lemma getIssueId_not_empty: "getIssueId P input \<noteq> Some []"
  by (auto simp: getIssueId_def Let_def is_digits_def split: option.splits if_splits)

lemma getIssueId_url_first:
  assumes "P input = Some path"
      and "split_str CHR ''/'' path = pre @ ''issues'' # seg # post"
      and "''issues'' \<notin> set pre"
  shows "getIssueId P input = (if is_digits seg then Some seg else None)"
proof -
  let ?parts = "pre @ ''issues'' # seg # post"
  have i: "indexOf ?parts ''issues'' = int (length pre)"
    using assms(3) by (rule indexOf_first)
  have n: "?parts ! nat (int (length pre) + 1) = seg"
    by (rule nth_after_prefix)
  have l: "int (length ?parts) > int (length pre) + 1" by simp
  show ?thesis
    unfolding getIssueId_def assms(1) option.case assms(2) Let_def i n
    using l by simp
qed

lemma getIssueId_url_last:
  assumes "P input = Some path"
      and "split_str CHR ''/'' path = pre @ [''issues'']"
      and "''issues'' \<notin> set pre"
  shows "getIssueId P input = None"
proof -
  have i: "indexOf (pre @ [''issues'']) ''issues'' = int (length pre)"
    using assms(3) by (rule indexOf_first)
  show ?thesis
    unfolding getIssueId_def assms(1) option.case assms(2) Let_def i
    by simp
qed

lemma getIssueId_url_absent:
  assumes "P input = Some path"
      and "''issues'' \<notin> set (split_str CHR ''/'' path)"
  shows "getIssueId P input = None"
  unfolding getIssueId_def assms(1) option.case Let_def indexOf_absent [OF assms(2)]
  by simp

lemma getIssueId_not_url:
  assumes "P input = None"
  shows "getIssueId P input = (if is_digits input then Some input else None)"
  using assms by (simp add: getIssueId_def)

lemma getIssueId_digits:
  assumes "needs_scheme P" and "is_digits input"
  shows "getIssueId P input = Some input"
proof -
  have "CHR '':'' \<notin> set input"
    using assms(2) by (rule is_digits_no_colon)
  with assms(1) have "P input = None"
    unfolding needs_scheme_def by blast
  with assms(2) show ?thesis
    by (simp add: getIssueId_not_url)
qed

lemma needs_scheme_example_urls: "needs_scheme example_urls"
  by (simp add: needs_scheme_def example_urls_def)

text \<open>
  Claim C7, as the specification states it: the extractor returns the digits for every
  input that parses as a URL whose path has an \<^verbatim>\<open>issues\<close> segment immediately followed
  by an all-digit segment. It does not: in the path of the URL below, of an organisation
  whose slug is \<^verbatim>\<open>issues\<close>, the fourth segment is \<^verbatim>\<open>issues\<close> and the fifth is
  \<^verbatim>\<open>123\<close>, and the extractor finds no identifier, because the segment after the first
  \<^verbatim>\<open>issues\<close> is not a number.
\<close>

theorem getIssueId_later_issues_segment_counterexample:
  "example_urls ''https://sentry.example.com/organizations/issues/issues/123/'' =
     Some ''/organizations/issues/issues/123/'' \<and>
   split_str CHR ''/'' ''/organizations/issues/issues/123/'' =
     ['''', ''organizations'', ''issues'', ''issues'', ''123'', ''''] \<and>
   is_digits ''123'' \<and>
   getIssueId example_urls ''https://sentry.example.com/organizations/issues/issues/123/'' = None"
  by code_simp

text \<open>
  Claim C7, amended: the extractor depends on its input and the URL constructor only, and
  \<^item> an input of one or more decimal digits, which the constructor rejects for want of a
    scheme, is returned unchanged;
  \<^item> for an input that parses as a URL in whose path the first \<^verbatim>\<open>issues\<close> segment is
    immediately followed by an all-digit segment, those digits are returned;
  \<^item> there is no match for a URL whose path has no \<^verbatim>\<open>issues\<close> segment, or whose first
    \<^verbatim>\<open>issues\<close> segment is the last segment or is followed by a segment that is not all
    digits;
  \<^item> there is no match for an input that is neither a URL nor all digits.
\<close>

theorem getIssueId_amended:
  "(needs_scheme P \<and> is_digits input \<longrightarrow> getIssueId P input = Some input) \<and>
   (P input = Some path \<and> split_str CHR ''/'' path = pre @ ''issues'' # seg # post \<and>
      ''issues'' \<notin> set pre \<and> is_digits seg \<longrightarrow> getIssueId P input = Some seg) \<and>
   (P input = Some path \<and> ''issues'' \<notin> set (split_str CHR ''/'' path) \<longrightarrow>
      getIssueId P input = None) \<and>
   (P input = Some path \<and> split_str CHR ''/'' path = pre @ [''issues''] \<and>
      ''issues'' \<notin> set pre \<longrightarrow> getIssueId P input = None) \<and>
   (P input = Some path \<and> split_str CHR ''/'' path = pre @ ''issues'' # seg # post \<and>
      ''issues'' \<notin> set pre \<and> \<not> is_digits seg \<longrightarrow> getIssueId P input = None) \<and>
   (P input = None \<and> \<not> is_digits input \<longrightarrow> getIssueId P input = None)"
  by (simp add: getIssueId_digits getIssueId_url_first getIssueId_url_last
        getIssueId_url_absent getIssueId_not_url)

theorem getIssueId_amended_witness:
  "(needs_scheme example_urls \<and> is_digits ''12345'' \<and>
      getIssueId example_urls ''12345'' = Some ''12345'') \<and>
   (example_urls ''https://sentry.example.com/organizations/acme/issues/42/'' =
      Some ''/organizations/acme/issues/42/'' \<and>
    getIssueId example_urls ''https://sentry.example.com/organizations/acme/issues/42/'' =
      Some ''42'') \<and>
   (example_urls ''https://sentry.example.com/organizations/acme/projects/'' =
      Some ''/organizations/acme/projects/'' \<and>
    getIssueId example_urls ''https://sentry.example.com/organizations/acme/projects/'' = None) \<and>
   (example_urls ''https://sentry.example.com/organizations/acme/issues'' =
      Some ''/organizations/acme/issues'' \<and>
    getIssueId example_urls ''https://sentry.example.com/organizations/acme/issues'' = None) \<and>
   (example_urls ''https://sentry.example.com/organizations/acme/issues/latest/'' =
      Some ''/organizations/acme/issues/latest/'' \<and>
    getIssueId example_urls ''https://sentry.example.com/organizations/acme/issues/latest/'' =
      None) \<and>
   (example_urls ''checkout-7'' = None \<and> \<not> is_digits ''checkout-7'' \<and>
      getIssueId example_urls ''checkout-7'' = None)"
proof -
  have h1: "needs_scheme example_urls \<and> is_digits ''12345''"
    using needs_scheme_example_urls by (simp add: is_digits_def is_digit_def)
  have c1: "getIssueId example_urls ''12345'' = Some ''12345''"
    using h1
      getIssueId_amended [where P = example_urls and input = "''12345''" and path = "[]"
        and pre = "[]" and seg = "[]" and post = "[]"]
    by blast
  have h2: "example_urls ''https://sentry.example.com/organizations/acme/issues/42/'' =
              Some ''/organizations/acme/issues/42/'' \<and>
            split_str CHR ''/'' ''/organizations/acme/issues/42/'' =
              ['''', ''organizations'', ''acme''] @ ''issues'' # ''42'' # [''''] \<and>
            ''issues'' \<notin> set ['''', ''organizations'', ''acme''] \<and> is_digits ''42''"
    by code_simp
  have c2: "getIssueId example_urls ''https://sentry.example.com/organizations/acme/issues/42/'' =
              Some ''42''"
    using h2
      getIssueId_amended [where P = example_urls
        and input = "''https://sentry.example.com/organizations/acme/issues/42/''"
        and path = "''/organizations/acme/issues/42/''"
        and pre = "['''', ''organizations'', ''acme'']" and seg = "''42''" and post = "['''']"]
    by blast
  have h3: "example_urls ''https://sentry.example.com/organizations/acme/projects/'' =
              Some ''/organizations/acme/projects/'' \<and>
            ''issues'' \<notin> set (split_str CHR ''/'' ''/organizations/acme/projects/'')"
    by code_simp
  have c3: "getIssueId example_urls ''https://sentry.example.com/organizations/acme/projects/'' =
              None"
    using h3
      getIssueId_amended [where P = example_urls
        and input = "''https://sentry.example.com/organizations/acme/projects/''"
        and path = "''/organizations/acme/projects/''"
        and pre = "[]" and seg = "[]" and post = "[]"]
    by blast
  have h4: "example_urls ''https://sentry.example.com/organizations/acme/issues'' =
              Some ''/organizations/acme/issues'' \<and>
            split_str CHR ''/'' ''/organizations/acme/issues'' =
              ['''', ''organizations'', ''acme''] @ [''issues''] \<and>
            ''issues'' \<notin> set ['''', ''organizations'', ''acme'']"
    by code_simp
  have c4: "getIssueId example_urls ''https://sentry.example.com/organizations/acme/issues'' =
              None"
    using h4
      getIssueId_amended [where P = example_urls
        and input = "''https://sentry.example.com/organizations/acme/issues''"
        and path = "''/organizations/acme/issues''"
        and pre = "['''', ''organizations'', ''acme'']" and seg = "[]" and post = "[]"]
    by blast
  have h5: "example_urls ''https://sentry.example.com/organizations/acme/issues/latest/'' =
              Some ''/organizations/acme/issues/latest/'' \<and>
            split_str CHR ''/'' ''/organizations/acme/issues/latest/'' =
              ['''', ''organizations'', ''acme''] @ ''issues'' # ''latest'' # [''''] \<and>
            ''issues'' \<notin> set ['''', ''organizations'', ''acme''] \<and> \<not> is_digits ''latest''"
    by code_simp
  have c5: "getIssueId example_urls
              ''https://sentry.example.com/organizations/acme/issues/latest/'' = None"
    using h5
      getIssueId_amended [where P = example_urls
        and input = "''https://sentry.example.com/organizations/acme/issues/latest/''"
        and path = "''/organizations/acme/issues/latest/''"
        and pre = "['''', ''organizations'', ''acme'']" and seg = "''latest''"
        and post = "['''']"]
    by blast
  have h6: "example_urls ''checkout-7'' = None \<and> \<not> is_digits ''checkout-7''"
    by code_simp
  have c6: "getIssueId example_urls ''checkout-7'' = None"
    using h6
      getIssueId_amended [where P = example_urls and input = "''checkout-7''" and path = "[]"
        and pre = "[]" and seg = "[]" and post = "[]"]
    by blast
  show ?thesis
    using h1 c1 h2 c2 h3 c3 h4 c4 h5 c5 h6 c6 by blast
qed

text \<open>
  Claim C10: when the input parses as a URL, only the first path segment equal to
  \<^verbatim>\<open>issues\<close> is consulted. If the segment right after it is not all digits there is no
  match, whatever follows, a later \<^verbatim>\<open>issues\<close> segment with digits behind it included;
  and the outcome is a function of the pathname alone, so the test of the raw input for
  digits plays no part once the input has parsed.
\<close>

theorem getIssueId_first_issues_only:
  assumes "P input = Some path"
  shows "(split_str CHR ''/'' path = pre @ ''issues'' # seg # post \<and> ''issues'' \<notin> set pre \<and>
            \<not> is_digits seg \<longrightarrow> getIssueId P input = None) \<and>
         (\<forall>P' input'. P' input' = Some path \<longrightarrow> getIssueId P' input' = getIssueId P input)"
proof (intro conjI impI allI)
  assume "split_str CHR ''/'' path = pre @ ''issues'' # seg # post \<and> ''issues'' \<notin> set pre \<and>
            \<not> is_digits seg"
  with assms show "getIssueId P input = None"
    by (simp add: getIssueId_url_first)
next
  fix P' :: url_parser and input'
  assume "P' input' = Some path"
  with assms show "getIssueId P' input' = getIssueId P input"
    by (simp add: getIssueId_def)
qed

theorem getIssueId_first_issues_only_witness:
  "example_urls ''https://sentry.example.com/issues/abc/issues/123'' =
     Some ''/issues/abc/issues/123'' \<and>
   split_str CHR ''/'' ''/issues/abc/issues/123'' =
     [''''] @ ''issues'' # ''abc'' # [''issues'', ''123''] \<and>
   ''issues'' \<notin> set [''''] \<and> \<not> is_digits ''abc'' \<and> is_digits ''123'' \<and>
   getIssueId example_urls ''https://sentry.example.com/issues/abc/issues/123'' = None \<and>
   getIssueId [''123'' \<mapsto> ''/issues/abc/issues/123''] ''123'' = None"
proof -
  have p: "example_urls ''https://sentry.example.com/issues/abc/issues/123'' =
             Some ''/issues/abc/issues/123''"
    by code_simp
  have h: "split_str CHR ''/'' ''/issues/abc/issues/123'' =
             [''''] @ ''issues'' # ''abc'' # [''issues'', ''123''] \<and>
           ''issues'' \<notin> set [''''] \<and> \<not> is_digits ''abc''"
    by code_simp
  have d: "is_digits ''123''"
    by code_simp
  have q: "[''123'' \<mapsto> ''/issues/abc/issues/123''] ''123'' = Some ''/issues/abc/issues/123''"
    by simp
  note t = getIssueId_first_issues_only [where P = example_urls
             and input = "''https://sentry.example.com/issues/abc/issues/123''"
             and path = "''/issues/abc/issues/123''" and pre = "['''']" and seg = "''abc''"
             and post = "[''issues'', ''123'']", OF p]
  have c: "getIssueId example_urls ''https://sentry.example.com/issues/abc/issues/123'' = None"
    using t h by blast
  have "getIssueId [''123'' \<mapsto> ''/issues/abc/issues/123''] ''123'' =
          getIssueId example_urls ''https://sentry.example.com/issues/abc/issues/123''"
    using t q by blast
  with c have e: "getIssueId [''123'' \<mapsto> ''/issues/abc/issues/123''] ''123'' = None"
    by simp
  show ?thesis
    using p h d c e by blast
qed

section \<open>Properties of the call handler\<close>

lemma callTool_unknown:
  assumes "toolName \<noteq> ''get_sentry_issue''" and "toolName \<noteq> ''list_sentry_projects''"
      and "toolName \<noteq> ''list_sentry_issues''" and "toolName \<noteq> ''get_sentry_event_details''"
  shows "callTool env toolName args =
           ([], Inl (McpError MethodNotFound (''Unknown tool: '' @ toolName)))"
  using assms by (simp add: callTool_def try_block_def catch_block_def)

lemma get_sentry_issue_invalid:
  assumes "\<not> isValidGetIssueArgs args"
  shows "callTool env ''get_sentry_issue'' args =
           ([], Inl (McpError InvalidParams ''Invalid args for get_sentry_issue.''))"
  using assms by (simp add: callTool_def try_block_def get_sentry_issue_def catch_block_def)

lemma list_sentry_issues_invalid:
  assumes "\<not> isValidListIssuesArgs args"
  shows "callTool env ''list_sentry_issues'' args =
           ([], Inl (McpError InvalidParams ''Invalid args for list_sentry_issues.''))"
  using assms by (simp add: callTool_def try_block_def list_sentry_issues_def catch_block_def)

lemma get_sentry_event_details_invalid:
  assumes "\<not> isValidGetEventArgs args"
  shows "callTool env ''get_sentry_event_details'' args =
           ([], Inl (McpError InvalidParams ''Invalid args for get_sentry_event_details.''))"
  using assms
  by (simp add: callTool_def try_block_def get_sentry_event_details_def catch_block_def)

text \<open>
  For the three tools of the handler that have required fields, a call that lacks one of
  them sends nothing upstream and ends in the protocol error \<^verbatim>\<open>InvalidParams\<close>.
\<close>

lemma missing_required_field:
  "get_prop args ''issue_id_or_url'' = None \<Longrightarrow>
     callTool env ''get_sentry_issue'' args =
       ([], Inl (McpError InvalidParams ''Invalid args for get_sentry_issue.''))"
  "get_prop args ''project_slug'' = None \<Longrightarrow>
     callTool env ''list_sentry_issues'' args =
       ([], Inl (McpError InvalidParams ''Invalid args for list_sentry_issues.''))"
  "get_prop args ''project_slug'' = None \<or> get_prop args ''event_id'' = None \<Longrightarrow>
     callTool env ''get_sentry_event_details'' args =
       ([], Inl (McpError InvalidParams ''Invalid args for get_sentry_event_details.''))"
proof -
  show "get_prop args ''issue_id_or_url'' = None \<Longrightarrow>
     callTool env ''get_sentry_issue'' args =
       ([], Inl (McpError InvalidParams ''Invalid args for get_sentry_issue.''))"
    by (rule get_sentry_issue_invalid) (simp add: isValidGetIssueArgs_def)
  show "get_prop args ''project_slug'' = None \<Longrightarrow>
     callTool env ''list_sentry_issues'' args =
       ([], Inl (McpError InvalidParams ''Invalid args for list_sentry_issues.''))"
    by (rule list_sentry_issues_invalid) (simp add: isValidListIssuesArgs_def)
  show "get_prop args ''project_slug'' = None \<or> get_prop args ''event_id'' = None \<Longrightarrow>
     callTool env ''get_sentry_event_details'' args =
       ([], Inl (McpError InvalidParams ''Invalid args for get_sentry_event_details.''))"
    by (rule get_sentry_event_details_invalid) (auto simp: isValidGetEventArgs_def)
qed

text \<open>
  Claim C1 says that every tool of the catalog, \<^verbatim>\<open>update_sentry_issue_status\<close> and
  \<^verbatim>\<open>create_sentry_issue_comment\<close> among them, answers a call that lacks a required field
  with \<^verbatim>\<open>InvalidParams\<close>. The handler has no branch for these two tools, whose guards
  \<^const>\<open>isValidUpdateIssueArgs\<close> and \<^const>\<open>isValidCreateCommentArgs\<close> it never calls: a
  call of either, here without its \<^verbatim>\<open>issue_id\<close>, ends in \<^verbatim>\<open>MethodNotFound\<close>.
\<close>

theorem callTool_update_and_comment_method_not_found:
  "\<not> isValidUpdateIssueArgs (Some (JObj [(''status'', JStr ''resolved'')])) \<and>
   callTool env ''update_sentry_issue_status'' (Some (JObj [(''status'', JStr ''resolved'')])) =
     ([], Inl (McpError MethodNotFound ''Unknown tool: update_sentry_issue_status'')) \<and>
   \<not> isValidCreateCommentArgs (Some (JObj [(''comment_text'', JStr ''seen again'')])) \<and>
   callTool env ''create_sentry_issue_comment''
       (Some (JObj [(''comment_text'', JStr ''seen again'')])) =
     ([], Inl (McpError MethodNotFound ''Unknown tool: create_sentry_issue_comment''))"
  by (simp add: callTool_unknown isValidUpdateIssueArgs_def isValidCreateCommentArgs_def)

text \<open>
  Claim C2 says that discovery returns six tools. The handler of the discovery request
  returns four: \<^verbatim>\<open>update_sentry_issue_status\<close> and \<^verbatim>\<open>create_sentry_issue_comment\<close>,
  which the README lists as available, are not in its answer.
\<close>

theorem listTools_has_four_tools:
  "map name listTools =
     [''get_sentry_issue'', ''list_sentry_projects'', ''list_sentry_issues'',
      ''get_sentry_event_details''] \<and>
   ''update_sentry_issue_status'' \<notin> set (map name listTools) \<and>
   ''create_sentry_issue_comment'' \<notin> set (map name listTools)"
  by (simp add: listTools_def)

section \<open>Properties of the error classifier\<close>

text \<open>
  Claim C4: for an upstream failure that carries a response, the classifier returns a
  result with the error flag set and one text item. The text is the permission-denied
  message naming the tool when the status is 401 or 403, the not-found message naming the
  tool when it is 404, and for every other status the composed message with the tool name,
  the transport message, the status in decimal and the serialised body.
\<close>

theorem catch_block_upstream_response:
  "(status = 401 \<or> status = 403 \<longrightarrow>
      catch_block env toolName (AxiosError message (Some (status, data))) =
        Inr \<lparr>content = [TextContent (''Sentry API permission denied for '' @ toolName @
                 ''. Check auth token validity and permissions.'')],
             isError = Some True\<rparr>) \<and>
   (status = 404 \<longrightarrow>
      catch_block env toolName (AxiosError message (Some (status, data))) =
        Inr \<lparr>content = [TextContent (''Sentry resource not found for '' @ toolName @
                 ''. Check IDs/slugs.'')],
             isError = Some True\<rparr>) \<and>
   (status \<noteq> 401 \<and> status \<noteq> 403 \<and> status \<noteq> 404 \<longrightarrow>
      catch_block env toolName (AxiosError message (Some (status, data))) =
        Inr \<lparr>content = [TextContent (''Sentry API error for '' @ toolName @ '': '' @ message @
                 '' Status: '' @ show_nat status @ ''. Response: '' @ json_stringify env data)],
             isError = Some True\<rparr>)"
  by (simp add: catch_block_def Let_def)

theorem catch_block_upstream_response_witness:
  "catch_block example_env ''get_sentry_issue''
     (AxiosError ''Request failed with status code 401'' (Some (401, JNull))) =
     Inr \<lparr>content = [TextContent
            ''Sentry API permission denied for get_sentry_issue. Check auth token validity and permissions.''],
          isError = Some True\<rparr> \<and>
   catch_block example_env ''get_sentry_issue''
     (AxiosError ''Request failed with status code 403'' (Some (403, JNull))) =
     Inr \<lparr>content = [TextContent
            ''Sentry API permission denied for get_sentry_issue. Check auth token validity and permissions.''],
          isError = Some True\<rparr> \<and>
   catch_block example_env ''get_sentry_issue''
     (AxiosError ''Request failed with status code 404'' (Some (404, JNull))) =
     Inr \<lparr>content = [TextContent
            ''Sentry resource not found for get_sentry_issue. Check IDs/slugs.''],
          isError = Some True\<rparr> \<and>
   catch_block example_env ''get_sentry_issue''
     (AxiosError ''Request failed with status code 402'' (Some (402, JNull))) =
     Inr \<lparr>content = [TextContent
            (''Sentry API error for get_sentry_issue: Request failed with status code 402 Status: 402. Response: '' @
             json_stringify example_env JNull)],
          isError = Some True\<rparr> \<and>
   catch_block example_env ''get_sentry_issue''
     (AxiosError ''Request failed with status code 500'' (Some (500, JNull))) =
     Inr \<lparr>content = [TextContent
            (''Sentry API error for get_sentry_issue: Request failed with status code 500 Status: 500. Response: '' @
             json_stringify example_env JNull)],
          isError = Some True\<rparr>"
proof -
  have s402: "show_nat 402 = ''402''" by code_simp
  have s500: "show_nat 500 = ''500''" by code_simp
  note t = catch_block_upstream_response [where env = example_env
             and toolName = "''get_sentry_issue''" and data = JNull]
  show ?thesis
    using t [where status = 401 and message = "''Request failed with status code 401''"]
      t [where status = 403 and message = "''Request failed with status code 403''"]
      t [where status = 404 and message = "''Request failed with status code 404''"]
      t [where status = 402 and message = "''Request failed with status code 402''"]
      t [where status = 500 and message = "''Request failed with status code 500''"]
    by (simp add: s402 s500)
qed

lemma catch_block_not_protocol:
  assumes "\<forall>code message. error \<noteq> McpError code message"
  shows "\<exists>text. catch_block env toolName error =
           Inr \<lparr>content = [TextContent text], isError = Some True\<rparr>"
proof (cases error)
  case (McpError code message)
  with assms show ?thesis by simp
next
  case (AxiosError message response)
  then show ?thesis by (simp add: catch_block_def Let_def)
next
  case (Error message)
  then show ?thesis by (simp add: catch_block_def)
next
  case Thrown
  then show ?thesis by (simp add: catch_block_def)
qed

text \<open>
  Claim C5: a failure that is already a protocol-level error is thrown again unchanged,
  and every other failure becomes a result with the error flag set and a single text
  item. For the handler as a whole: a protocol error raised in the \<^verbatim>\<open>try\<close> block leaves
  the handler as it is, and any other failure raised there ends in such a result.
\<close>

theorem catch_block_rethrows_protocol_errors:
  "catch_block env toolName (McpError code message) = Inl (McpError code message) \<and>
   ((\<forall>code message. error \<noteq> McpError code message) \<longrightarrow>
      (\<exists>text. catch_block env toolName error =
         Inr \<lparr>content = [TextContent text], isError = Some True\<rparr>)) \<and>
   (try_block env toolName args = (sent, Inl (McpError code message)) \<longrightarrow>
      callTool env toolName args = (sent, Inl (McpError code message))) \<and>
   (try_block env toolName args = (sent, Inl error) \<and>
      (\<forall>code message. error \<noteq> McpError code message) \<longrightarrow>
      (\<exists>text. callTool env toolName args =
         (sent, Inr \<lparr>content = [TextContent text], isError = Some True\<rparr>)))"
proof (intro conjI impI)
  show "catch_block env toolName (McpError code message) = Inl (McpError code message)"
    by (simp add: catch_block_def)
next
  assume "\<forall>code message. error \<noteq> McpError code message"
  then show "\<exists>text. catch_block env toolName error =
               Inr \<lparr>content = [TextContent text], isError = Some True\<rparr>"
    by (rule catch_block_not_protocol)
next
  assume "try_block env toolName args = (sent, Inl (McpError code message))"
  then show "callTool env toolName args = (sent, Inl (McpError code message))"
    by (simp add: callTool_def catch_block_def)
next
  assume a: "try_block env toolName args = (sent, Inl error) \<and>
               (\<forall>code message. error \<noteq> McpError code message)"
  then obtain msg where
    "catch_block env toolName error = Inr \<lparr>content = [TextContent msg], isError = Some True\<rparr>"
    using catch_block_not_protocol by blast
  with a show "\<exists>text. callTool env toolName args =
                 (sent, Inr \<lparr>content = [TextContent text], isError = Some True\<rparr>)"
    by (simp add: callTool_def)
qed

theorem catch_block_rethrows_protocol_errors_witness:
  "try_block example_env ''get_sentry_issue'' (Some (JObj [])) =
     ([], Inl (McpError InvalidParams ''Invalid args for get_sentry_issue.'')) \<and>
   callTool example_env ''get_sentry_issue'' (Some (JObj [])) =
     ([], Inl (McpError InvalidParams ''Invalid args for get_sentry_issue.'')) \<and>
   try_block example_env ''get_sentry_issue'' (Some (JObj [(''issue_id_or_url'', JStr ''7'')])) =
     ([(''issues/7/'', [])],
      Inl (AxiosError ''Request failed with status code 404''
             (Some (404, JObj [(''detail'', JStr ''The requested resource does not exist'')])))) \<and>
   (\<exists>text. callTool example_env ''get_sentry_issue''
              (Some (JObj [(''issue_id_or_url'', JStr ''7'')])) =
            ([(''issues/7/'', [])], Inr \<lparr>content = [TextContent text], isError = Some True\<rparr>)) \<and>
   (\<exists>text. catch_block example_env ''list_sentry_projects'' (Error ''socket hang up'') =
            Inr \<lparr>content = [TextContent text], isError = Some True\<rparr>)"
proof -
  let ?e404 = "AxiosError ''Request failed with status code 404''
                 (Some (404, JObj [(''detail'', JStr ''The requested resource does not exist'')]))"
  have t1: "try_block example_env ''get_sentry_issue'' (Some (JObj [])) =
              ([], Inl (McpError InvalidParams ''Invalid args for get_sentry_issue.''))"
    by code_simp
  have t2: "try_block example_env ''get_sentry_issue''
              (Some (JObj [(''issue_id_or_url'', JStr ''7'')])) = ([(''issues/7/'', [])], Inl ?e404)"
    by code_simp
  have n2: "\<forall>code message. ?e404 \<noteq> McpError code message"
    by simp
  have n3: "\<forall>code message. Error ''socket hang up'' \<noteq> McpError code message"
    by simp
  have c1: "callTool example_env ''get_sentry_issue'' (Some (JObj [])) =
              ([], Inl (McpError InvalidParams ''Invalid args for get_sentry_issue.''))"
    using t1
      catch_block_rethrows_protocol_errors [where env = example_env
        and toolName = "''get_sentry_issue''" and args = "Some (JObj [])" and sent = "[]"
        and code = InvalidParams and message = "''Invalid args for get_sentry_issue.''"
        and error = Thrown]
    by blast
  have c2: "\<exists>text. callTool example_env ''get_sentry_issue''
                     (Some (JObj [(''issue_id_or_url'', JStr ''7'')])) =
                   ([(''issues/7/'', [])],
                    Inr \<lparr>content = [TextContent text], isError = Some True\<rparr>)"
    using t2 n2
      catch_block_rethrows_protocol_errors [where env = example_env
        and toolName = "''get_sentry_issue''"
        and args = "Some (JObj [(''issue_id_or_url'', JStr ''7'')])"
        and sent = "[(''issues/7/'', [])]" and error = ?e404]
    by blast
  have c3: "\<exists>text. catch_block example_env ''list_sentry_projects'' (Error ''socket hang up'') =
                   Inr \<lparr>content = [TextContent text], isError = Some True\<rparr>"
    using n3
      catch_block_rethrows_protocol_errors [where env = example_env
        and toolName = "''list_sentry_projects''" and error = "Error ''socket hang up''"]
    by blast
  show ?thesis
    using t1 c1 t2 c2 c3 by blast
qed

section \<open>Properties of the issue list\<close>

lemma list_sentry_issues_sent:
  assumes "isValidListIssuesArgs args"
  shows "fst (callTool env ''list_sentry_issues'' args) =
           [(''projects/'' @ org_slug env @ ''/'' @ str_of (get_prop args ''project_slug'') @
               ''/issues/'', list_issues_params args)]"
  using assms
  by (simp add: callTool_def try_block_def list_sentry_issues_def Let_def split: sum.splits)

lemma list_issues_params_both:
  assumes "get_prop args ''query'' = Some (JStr q)" and "q \<noteq> []"
      and "get_prop args ''status'' = Some (JStr st)" and "st \<noteq> []"
  shows "list_issues_params args = [(''query'', q @ '' is:'' @ st)]"
  using assms by (simp add: list_issues_params_def)

lemma list_issues_params_status_only:
  assumes "\<not> truthy (get_prop args ''query'')"
      and "get_prop args ''status'' = Some (JStr st)" and "st \<noteq> []"
  shows "list_issues_params args = [(''query'', ''is:'' @ st)]"
  using assms by (simp add: list_issues_params_def)

lemma list_issues_params_query_only:
  assumes "get_prop args ''query'' = Some (JStr q)" and "q \<noteq> []"
      and "\<not> truthy (get_prop args ''status'')"
  shows "list_issues_params args = [(''query'', q)]"
  using assms by (simp add: list_issues_params_def)

lemma list_issues_params_neither:
  assumes "\<not> truthy (get_prop args ''query'')" and "\<not> truthy (get_prop args ''status'')"
  shows "list_issues_params args = []"
  using assms by (simp add: list_issues_params_def)

text \<open>
  Claim C8 says that the guard of \<^verbatim>\<open>list_sentry_issues\<close> rejects a payload whose status
  is a string outside the enumeration \<^verbatim>\<open>resolved\<close>, \<^verbatim>\<open>unresolved\<close>,
  \<^verbatim>\<open>ignored\<close>. The guard tests the status for being a string only: the payload below
  passes it, and the handler sends the status upstream as the predicate \<^verbatim>\<open>is:bogus\<close>.
  The guard \<^const>\<open>isValidUpdateIssueArgs\<close> of the same file does test the enumeration.
\<close>

theorem isValidListIssuesArgs_accepts_any_status:
  "isValidListIssuesArgs
     (Some (JObj [(''project_slug'', JStr ''web''), (''status'', JStr ''bogus'')])) \<and>
   fst (callTool env ''list_sentry_issues''
          (Some (JObj [(''project_slug'', JStr ''web''), (''status'', JStr ''bogus'')]))) =
     [(''projects/'' @ org_slug env @ ''/web/issues/'', [(''query'', ''is:bogus'')])] \<and>
   \<not> isValidUpdateIssueArgs
     (Some (JObj [(''issue_id'', JStr ''42''), (''status'', JStr ''bogus'')]))"
proof -
  let ?args = "Some (JObj [(''project_slug'', JStr ''web''), (''status'', JStr ''bogus'')])"
  have v: "isValidListIssuesArgs ?args"
    by (simp add: isValidListIssuesArgs_def)
  have p: "list_issues_params ?args = [(''query'', ''is:bogus'')]"
    by (simp add: list_issues_params_def)
  have u: "\<not> isValidUpdateIssueArgs
             (Some (JObj [(''issue_id'', JStr ''42''), (''status'', JStr ''bogus'')]))"
    by (simp add: isValidUpdateIssueArgs_def)
  show ?thesis
    using v u by (simp add: list_sentry_issues_sent [OF v] p)
qed

text \<open>
  Claim C6: \<^verbatim>\<open>list_sentry_issues\<close> sends one request whose \<^verbatim>\<open>query\<close> parameter is
  the free-text query and the status predicate joined by a single space, or the status
  predicate alone when there is no query. With the query \<^verbatim>\<open>is:unresolved\<close> and the
  status \<^verbatim>\<open>ignored\<close> the parameter is \<^verbatim>\<open>is:unresolved is:ignored\<close>; with no query
  and the status \<^verbatim>\<open>resolved\<close> it is \<^verbatim>\<open>is:resolved\<close>.
\<close>

theorem list_sentry_issues_query_composition:
  "(isValidListIssuesArgs args \<and> get_prop args ''query'' = Some (JStr q) \<and> q \<noteq> [] \<and>
      get_prop args ''status'' = Some (JStr st) \<and> st \<noteq> [] \<longrightarrow>
      fst (callTool env ''list_sentry_issues'' args) =
        [(''projects/'' @ org_slug env @ ''/'' @ str_of (get_prop args ''project_slug'') @
            ''/issues/'', [(''query'', q @ '' '' @ ''is:'' @ st)])]) \<and>
   (isValidListIssuesArgs args \<and> get_prop args ''query'' = None \<and>
      get_prop args ''status'' = Some (JStr st) \<and> st \<noteq> [] \<longrightarrow>
      fst (callTool env ''list_sentry_issues'' args) =
        [(''projects/'' @ org_slug env @ ''/'' @ str_of (get_prop args ''project_slug'') @
            ''/issues/'', [(''query'', ''is:'' @ st)])]) \<and>
   fst (callTool env ''list_sentry_issues''
          (Some (JObj [(''project_slug'', JStr slug), (''query'', JStr ''is:unresolved''),
                       (''status'', JStr ''ignored'')]))) =
     [(''projects/'' @ org_slug env @ ''/'' @ slug @ ''/issues/'',
       [(''query'', ''is:unresolved is:ignored'')])] \<and>
   fst (callTool env ''list_sentry_issues''
          (Some (JObj [(''project_slug'', JStr slug), (''status'', JStr ''resolved'')]))) =
     [(''projects/'' @ org_slug env @ ''/'' @ slug @ ''/issues/'', [(''query'', ''is:resolved'')])]"
proof (intro conjI impI)
  assume "isValidListIssuesArgs args \<and> get_prop args ''query'' = Some (JStr q) \<and> q \<noteq> [] \<and>
            get_prop args ''status'' = Some (JStr st) \<and> st \<noteq> []"
  then show "fst (callTool env ''list_sentry_issues'' args) =
        [(''projects/'' @ org_slug env @ ''/'' @ str_of (get_prop args ''project_slug'') @
            ''/issues/'', [(''query'', q @ '' '' @ ''is:'' @ st)])]"
    by (simp add: list_sentry_issues_sent list_issues_params_both)
next
  assume "isValidListIssuesArgs args \<and> get_prop args ''query'' = None \<and>
            get_prop args ''status'' = Some (JStr st) \<and> st \<noteq> []"
  then show "fst (callTool env ''list_sentry_issues'' args) =
        [(''projects/'' @ org_slug env @ ''/'' @ str_of (get_prop args ''project_slug'') @
            ''/issues/'', [(''query'', ''is:'' @ st)])]"
    by (simp add: list_sentry_issues_sent list_issues_params_status_only)
next
  let ?args = "Some (JObj [(''project_slug'', JStr slug), (''query'', JStr ''is:unresolved''),
                           (''status'', JStr ''ignored'')])"
  have v: "isValidListIssuesArgs ?args"
    by (simp add: isValidListIssuesArgs_def)
  have p: "list_issues_params ?args = [(''query'', ''is:unresolved is:ignored'')]"
    by (simp add: list_issues_params_def)
  show "fst (callTool env ''list_sentry_issues'' ?args) =
          [(''projects/'' @ org_slug env @ ''/'' @ slug @ ''/issues/'',
            [(''query'', ''is:unresolved is:ignored'')])]"
    by (simp add: list_sentry_issues_sent [OF v] p)
next
  let ?args = "Some (JObj [(''project_slug'', JStr slug), (''status'', JStr ''resolved'')])"
  have v: "isValidListIssuesArgs ?args"
    by (simp add: isValidListIssuesArgs_def)
  have p: "list_issues_params ?args = [(''query'', ''is:resolved'')]"
    by (simp add: list_issues_params_def)
  show "fst (callTool env ''list_sentry_issues'' ?args) =
          [(''projects/'' @ org_slug env @ ''/'' @ slug @ ''/issues/'',
            [(''query'', ''is:resolved'')])]"
    by (simp add: list_sentry_issues_sent [OF v] p)
qed

theorem list_sentry_issues_query_composition_witness:
  "fst (callTool example_env ''list_sentry_issues''
          (Some (JObj [(''project_slug'', JStr ''web''), (''query'', JStr ''environment:production''),
                       (''status'', JStr ''unresolved'')]))) =
     [(''projects/acme/web/issues/'', [(''query'', ''environment:production is:unresolved'')])] \<and>
   fst (callTool example_env ''list_sentry_issues''
          (Some (JObj [(''status'', JStr ''ignored''), (''project_slug'', JStr ''web'')]))) =
     [(''projects/acme/web/issues/'', [(''query'', ''is:ignored'')])]"
proof -
  let ?a = "Some (JObj [(''project_slug'', JStr ''web''), (''query'', JStr ''environment:production''),
                        (''status'', JStr ''unresolved'')])"
  let ?b = "Some (JObj [(''status'', JStr ''ignored''), (''project_slug'', JStr ''web'')])"
  have ha: "isValidListIssuesArgs ?a \<and> get_prop ?a ''query'' = Some (JStr ''environment:production'') \<and>
              ''environment:production'' \<noteq> [] \<and>
              get_prop ?a ''status'' = Some (JStr ''unresolved'') \<and> ''unresolved'' \<noteq> []"
    by (simp add: isValidListIssuesArgs_def)
  have hb: "isValidListIssuesArgs ?b \<and> get_prop ?b ''query'' = None \<and>
              get_prop ?b ''status'' = Some (JStr ''ignored'') \<and> ''ignored'' \<noteq> []"
    by (simp add: isValidListIssuesArgs_def)
  have ca: "fst (callTool example_env ''list_sentry_issues'' ?a) =
              [(''projects/'' @ org_slug example_env @ ''/'' @ str_of (get_prop ?a ''project_slug'') @
                  ''/issues/'', [(''query'', ''environment:production'' @ '' '' @ ''is:'' @ ''unresolved'')])]"
    using ha
      list_sentry_issues_query_composition [where env = example_env and args = ?a
        and q = "''environment:production''" and st = "''unresolved''" and slug = "[]"]
    by blast
  have cb: "fst (callTool example_env ''list_sentry_issues'' ?b) =
              [(''projects/'' @ org_slug example_env @ ''/'' @ str_of (get_prop ?b ''project_slug'') @
                  ''/issues/'', [(''query'', ''is:'' @ ''ignored'')])]"
    using hb
      list_sentry_issues_query_composition [where env = example_env and args = ?b
        and q = "[]" and st = "''ignored''" and slug = "[]"]
    by blast
  show ?thesis
    using ca cb by (simp add: example_env_def)
qed

text \<open>
  Claim C9: in \<^verbatim>\<open>list_sentry_issues\<close> an empty query and an empty status count as
  absent. With an empty query and a non-empty status the \<^verbatim>\<open>query\<close> parameter is
  \<^verbatim>\<open>is:\<close> and the status, with no space in front; with both empty the request
  carries no parameter at all; and replacing an empty query, or an empty status, by an
  absent one changes nothing in what the handler sends and returns.
\<close>

theorem list_sentry_issues_empty_is_absent:
  "(isValidListIssuesArgs args \<and> get_prop args ''query'' = Some (JStr []) \<and>
      get_prop args ''status'' = Some (JStr st) \<and> st \<noteq> [] \<longrightarrow>
      fst (callTool env ''list_sentry_issues'' args) =
        [(''projects/'' @ org_slug env @ ''/'' @ str_of (get_prop args ''project_slug'') @
            ''/issues/'', [(''query'', ''is:'' @ st)])]) \<and>
   (isValidListIssuesArgs args \<and> get_prop args ''query'' = Some (JStr []) \<and>
      get_prop args ''status'' = Some (JStr []) \<longrightarrow>
      fst (callTool env ''list_sentry_issues'' args) =
        [(''projects/'' @ org_slug env @ ''/'' @ str_of (get_prop args ''project_slug'') @
            ''/issues/'', [])]) \<and>
   (isValidListIssuesArgs args \<and> isValidListIssuesArgs args' \<and>
      get_prop args' ''project_slug'' = get_prop args ''project_slug'' \<and>
      get_prop args ''query'' = Some (JStr []) \<and> get_prop args' ''query'' = None \<and>
      get_prop args' ''status'' = get_prop args ''status'' \<longrightarrow>
      callTool env ''list_sentry_issues'' args' = callTool env ''list_sentry_issues'' args) \<and>
   (isValidListIssuesArgs args \<and> isValidListIssuesArgs args' \<and>
      get_prop args' ''project_slug'' = get_prop args ''project_slug'' \<and>
      get_prop args ''status'' = Some (JStr []) \<and> get_prop args' ''status'' = None \<and>
      get_prop args' ''query'' = get_prop args ''query'' \<longrightarrow>
      callTool env ''list_sentry_issues'' args' = callTool env ''list_sentry_issues'' args)"
proof (intro conjI impI)
  assume "isValidListIssuesArgs args \<and> get_prop args ''query'' = Some (JStr []) \<and>
            get_prop args ''status'' = Some (JStr st) \<and> st \<noteq> []"
  then show "fst (callTool env ''list_sentry_issues'' args) =
        [(''projects/'' @ org_slug env @ ''/'' @ str_of (get_prop args ''project_slug'') @
            ''/issues/'', [(''query'', ''is:'' @ st)])]"
    by (simp add: list_sentry_issues_sent list_issues_params_status_only)
next
  assume "isValidListIssuesArgs args \<and> get_prop args ''query'' = Some (JStr []) \<and>
            get_prop args ''status'' = Some (JStr [])"
  then show "fst (callTool env ''list_sentry_issues'' args) =
        [(''projects/'' @ org_slug env @ ''/'' @ str_of (get_prop args ''project_slug'') @
            ''/issues/'', [])]"
    by (simp add: list_sentry_issues_sent list_issues_params_neither)
next
  assume a: "isValidListIssuesArgs args \<and> isValidListIssuesArgs args' \<and>
      get_prop args' ''project_slug'' = get_prop args ''project_slug'' \<and>
      get_prop args ''query'' = Some (JStr []) \<and> get_prop args' ''query'' = None \<and>
      get_prop args' ''status'' = get_prop args ''status''"
  then have "list_issues_params args' = list_issues_params args"
    by (simp add: list_issues_params_def)
  with a show "callTool env ''list_sentry_issues'' args' = callTool env ''list_sentry_issues'' args"
    by (simp add: callTool_def try_block_def list_sentry_issues_def)
next
  assume a: "isValidListIssuesArgs args \<and> isValidListIssuesArgs args' \<and>
      get_prop args' ''project_slug'' = get_prop args ''project_slug'' \<and>
      get_prop args ''status'' = Some (JStr []) \<and> get_prop args' ''status'' = None \<and>
      get_prop args' ''query'' = get_prop args ''query''"
  then have "list_issues_params args' = list_issues_params args"
    by (simp add: list_issues_params_def)
  with a show "callTool env ''list_sentry_issues'' args' = callTool env ''list_sentry_issues'' args"
    by (simp add: callTool_def try_block_def list_sentry_issues_def)
qed

theorem list_sentry_issues_empty_is_absent_witness:
  "fst (callTool example_env ''list_sentry_issues''
          (Some (JObj [(''project_slug'', JStr ''web''), (''query'', JStr ''''),
                       (''status'', JStr ''resolved'')]))) =
     [(''projects/acme/web/issues/'', [(''query'', ''is:resolved'')])] \<and>
   fst (callTool example_env ''list_sentry_issues''
          (Some (JObj [(''project_slug'', JStr ''web''), (''query'', JStr ''''),
                       (''status'', JStr '''')]))) =
     [(''projects/acme/web/issues/'', [])] \<and>
   callTool example_env ''list_sentry_issues''
     (Some (JObj [(''project_slug'', JStr ''web''), (''status'', JStr ''resolved'')])) =
   callTool example_env ''list_sentry_issues''
     (Some (JObj [(''project_slug'', JStr ''web''), (''query'', JStr ''''),
                  (''status'', JStr ''resolved'')])) \<and>
   callTool example_env ''list_sentry_issues''
     (Some (JObj [(''project_slug'', JStr ''web''), (''query'', JStr '''')])) =
   callTool example_env ''list_sentry_issues''
     (Some (JObj [(''project_slug'', JStr ''web''), (''query'', JStr ''''),
                  (''status'', JStr '''')]))"
proof -
  let ?a = "Some (JObj [(''project_slug'', JStr ''web''), (''query'', JStr ''''),
                        (''status'', JStr ''resolved'')])"
  let ?b = "Some (JObj [(''project_slug'', JStr ''web''), (''query'', JStr ''''),
                        (''status'', JStr '''')])"
  let ?c = "Some (JObj [(''project_slug'', JStr ''web''), (''status'', JStr ''resolved'')])"
  let ?d = "Some (JObj [(''project_slug'', JStr ''web''), (''query'', JStr '''')])"
  have ha: "isValidListIssuesArgs ?a \<and> get_prop ?a ''query'' = Some (JStr []) \<and>
              get_prop ?a ''status'' = Some (JStr ''resolved'') \<and> ''resolved'' \<noteq> []"
    by (simp add: isValidListIssuesArgs_def)
  have hb: "isValidListIssuesArgs ?b \<and> get_prop ?b ''query'' = Some (JStr []) \<and>
              get_prop ?b ''status'' = Some (JStr [])"
    by (simp add: isValidListIssuesArgs_def)
  have hc: "isValidListIssuesArgs ?a \<and> isValidListIssuesArgs ?c \<and>
              get_prop ?c ''project_slug'' = get_prop ?a ''project_slug'' \<and>
              get_prop ?a ''query'' = Some (JStr []) \<and> get_prop ?c ''query'' = None \<and>
              get_prop ?c ''status'' = get_prop ?a ''status''"
    by (simp add: isValidListIssuesArgs_def)
  have hd: "isValidListIssuesArgs ?b \<and> isValidListIssuesArgs ?d \<and>
              get_prop ?d ''project_slug'' = get_prop ?b ''project_slug'' \<and>
              get_prop ?b ''status'' = Some (JStr []) \<and> get_prop ?d ''status'' = None \<and>
              get_prop ?d ''query'' = get_prop ?b ''query''"
    by (simp add: isValidListIssuesArgs_def)
  have ca: "fst (callTool example_env ''list_sentry_issues'' ?a) =
              [(''projects/'' @ org_slug example_env @ ''/'' @ str_of (get_prop ?a ''project_slug'') @
                  ''/issues/'', [(''query'', ''is:'' @ ''resolved'')])]"
    using ha
      list_sentry_issues_empty_is_absent [where env = example_env and args = ?a
        and args' = ?a and st = "''resolved''"]
    by blast
  have cb: "fst (callTool example_env ''list_sentry_issues'' ?b) =
              [(''projects/'' @ org_slug example_env @ ''/'' @ str_of (get_prop ?b ''project_slug'') @
                  ''/issues/'', [])]"
    using hb
      list_sentry_issues_empty_is_absent [where env = example_env and args = ?b
        and args' = ?b and st = "[]"]
    by blast
  have cc: "callTool example_env ''list_sentry_issues'' ?c =
            callTool example_env ''list_sentry_issues'' ?a"
    using hc
      list_sentry_issues_empty_is_absent [where env = example_env and args = ?a
        and args' = ?c and st = "[]"]
    by blast
  have cd: "callTool example_env ''list_sentry_issues'' ?d =
            callTool example_env ''list_sentry_issues'' ?b"
    using hd
      list_sentry_issues_empty_is_absent [where env = example_env and args = ?b
        and args' = ?d and st = "[]"]
    by blast
  show ?thesis
    using ca cb cc cd by (simp add: example_env_def)
qed

section \<open>Properties of the issue lookup\<close>

lemma map_of_set_prop: "map_of (set_prop k v ps) = (map_of ps)(k \<mapsto> v)"
  by (induction ps) (auto simp: fun_eq_iff)

lemma set_prop_fresh: "k \<notin> fst ` set ps \<Longrightarrow> set_prop k v ps = ps @ [(k, v)]"
  by (induction ps) auto

lemma get_sentry_issue_event_failed:
  assumes "isValidGetIssueArgs args"
      and "getIssueId (parse_url env) (str_of (get_prop args ''issue_id_or_url'')) = Some issueId"
      and "axios_get env (''issues/'' @ issueId @ ''/'') [] = Inr issueData"
      and "axios_get env
             (''organizations/'' @ org_slug env @ ''/issues/'' @ issueId @ ''/events/latest/'') [] =
           Inl eventError"
  shows "callTool env ''get_sentry_issue'' args =
           ([(''issues/'' @ issueId @ ''/'', []),
             (''organizations/'' @ org_slug env @ ''/issues/'' @ issueId @ ''/events/latest/'', [])],
            Inr \<lparr>content = [TextContent (json_stringify2 env
                     (JObj (set_prop ''latest_event'' JNull (spread issueData))))],
                 isError = None\<rparr>)"
proof -
  have "issueId \<noteq> []"
    using assms(2) getIssueId_not_empty [of "parse_url env" "str_of (get_prop args ''issue_id_or_url'')"]
    by auto
  then show ?thesis
    using assms
    by (simp add: callTool_def try_block_def get_sentry_issue_def Let_def text_result_def)
qed

text \<open>
  Claim C3: when \<^verbatim>\<open>get_sentry_issue\<close> has fetched the issue and the fetch of the latest
  event fails, in whatever way, the handler returns a result that is not an error. Its one
  text item is the serialisation of an object that has every property of the issue
  payload and the property \<^verbatim>\<open>latest_event\<close> with the value null; when the payload is an
  object without that property, it is appended to the payload's properties.
\<close>

theorem get_sentry_issue_absorbs_event_failure:
  assumes "isValidGetIssueArgs args"
      and "getIssueId (parse_url env) (str_of (get_prop args ''issue_id_or_url'')) = Some issueId"
      and "axios_get env (''issues/'' @ issueId @ ''/'') [] = Inr issueData"
      and "axios_get env
             (''organizations/'' @ org_slug env @ ''/issues/'' @ issueId @ ''/events/latest/'') [] =
           Inl eventError"
  shows "\<exists>result combinedData.
           callTool env ''get_sentry_issue'' args =
             ([(''issues/'' @ issueId @ ''/'', []),
               (''organizations/'' @ org_slug env @ ''/issues/'' @ issueId @ ''/events/latest/'',
                [])],
              Inr result) \<and>
           isError result = None \<and> \<not> is_error result \<and>
           content result = [TextContent (json_stringify2 env (JObj combinedData))] \<and>
           map_of combinedData ''latest_event'' = Some JNull \<and>
           (\<forall>k. k \<noteq> ''latest_event'' \<longrightarrow> map_of combinedData k = map_of (spread issueData) k) \<and>
           (\<forall>kvs. issueData = JObj kvs \<and> ''latest_event'' \<notin> fst ` set kvs \<longrightarrow>
              combinedData = kvs @ [(''latest_event'', JNull)])"
proof -
  let ?combined = "set_prop ''latest_event'' JNull (spread issueData)"
  let ?result = "\<lparr>content = [TextContent (json_stringify2 env (JObj ?combined))],
                  isError = None\<rparr>"
  have call: "callTool env ''get_sentry_issue'' args =
           ([(''issues/'' @ issueId @ ''/'', []),
             (''organizations/'' @ org_slug env @ ''/issues/'' @ issueId @ ''/events/latest/'', [])],
            Inr ?result)"
    using assms by (rule get_sentry_issue_event_failed)
  have flag: "isError ?result = None \<and> \<not> is_error ?result"
    by (simp add: is_error_def)
  have item: "content ?result = [TextContent (json_stringify2 env (JObj ?combined))]"
    by simp
  have null: "map_of ?combined ''latest_event'' = Some JNull"
    by (simp add: map_of_set_prop)
  have rest: "\<forall>k. k \<noteq> ''latest_event'' \<longrightarrow> map_of ?combined k = map_of (spread issueData) k"
    by (simp add: map_of_set_prop)
  have obj: "\<forall>kvs. issueData = JObj kvs \<and> ''latest_event'' \<notin> fst ` set kvs \<longrightarrow>
               ?combined = kvs @ [(''latest_event'', JNull)]"
    by (auto simp: set_prop_fresh)
  show ?thesis
    using call flag item null rest obj by blast
qed

theorem get_sentry_issue_absorbs_event_failure_witness:
  "callTool example_env ''get_sentry_issue''
     (Some (JObj [(''issue_id_or_url'',
                   JStr ''https://sentry.example.com/organizations/acme/issues/42/'')])) =
     ([(''issues/42/'', []), (''organizations/acme/issues/42/events/latest/'', [])],
      Inr \<lparr>content = [TextContent (json_stringify2 example_env
               (JObj [(''id'', JStr ''42''), (''title'', JStr ''TypeError in checkout''),
                      (''latest_event'', JNull)]))],
           isError = None\<rparr>)"
proof -
  let ?args = "Some (JObj [(''issue_id_or_url'',
                 JStr ''https://sentry.example.com/organizations/acme/issues/42/'')])"
  let ?issue = "[(''id'', JStr ''42''), (''title'', JStr ''TypeError in checkout'')]"
  let ?failure = "AxiosError ''Request failed with status code 404''
                    (Some (404, JObj [(''detail'', JStr ''The requested resource does not exist'')]))"
  have h1: "isValidGetIssueArgs ?args"
    by (simp add: isValidGetIssueArgs_def)
  have h2: "getIssueId (parse_url example_env) (str_of (get_prop ?args ''issue_id_or_url'')) =
              Some ''42''"
    by code_simp
  have h3: "axios_get example_env (''issues/'' @ ''42'' @ ''/'') [] = Inr (JObj ?issue)"
    by code_simp
  have h4: "axios_get example_env
              (''organizations/'' @ org_slug example_env @ ''/issues/'' @ ''42'' @
                 ''/events/latest/'') [] = Inl ?failure"
    by code_simp
  have fresh: "''latest_event'' \<notin> fst ` set ?issue"
    by simp
  have path: "''organizations/'' @ org_slug example_env @ ''/issues/'' @ ''42'' @
                ''/events/latest/'' = ''organizations/acme/issues/42/events/latest/''"
    by (simp add: example_env_def)
  from get_sentry_issue_absorbs_event_failure [OF h1 h2 h3 h4]
  obtain result combinedData where
    call: "callTool example_env ''get_sentry_issue'' ?args =
             ([(''issues/'' @ ''42'' @ ''/'', []),
               (''organizations/'' @ org_slug example_env @ ''/issues/'' @ ''42'' @
                  ''/events/latest/'', [])],
              Inr result)"
    and flag: "isError result = None"
    and item: "content result = [TextContent (json_stringify2 example_env (JObj combinedData))]"
    and obj: "\<forall>kvs. JObj ?issue = JObj kvs \<and> ''latest_event'' \<notin> fst ` set kvs \<longrightarrow>
                combinedData = kvs @ [(''latest_event'', JNull)]"
    by blast
  from obj fresh have "combinedData = ?issue @ [(''latest_event'', JNull)]"
    by blast
  with flag item have "result =
      \<lparr>content = [TextContent (json_stringify2 example_env
          (JObj [(''id'', JStr ''42''), (''title'', JStr ''TypeError in checkout''),
                 (''latest_event'', JNull)]))],
       isError = None\<rparr>"
    by (cases result) simp
  with call path show ?thesis
    by simp
qed

end
